theory Spec2Isabelle
  imports Complex_Main
begin

section \<open>Data model\<close>

text \<open>
  The development embeds three headers of the gradient-problem slice of the solver:
  \<^verbatim>\<open>first_order_function.h\<close> (the user's objective and its two optional capabilities),
  \<^verbatim>\<open>gradient_problem.h\<close> (the composition of an objective with an optional local
  parameterization) and \<^verbatim>\<open>gradient_problem_evaluator.h\<close> (the adapter to the shared
  evaluator interface, with its call-time accounting).

  A \<^verbatim>\<open>double\<close> is modelled as a \<^typ>\<open>real\<close>: rounding, NaN and infinities are outside
  the model. A \<^verbatim>\<open>double*\<close> that the code only reads through or writes through as a whole
  vector is modelled by the vector it points to; an output parameter is passed in with its
  old contents and returned with its new contents. Only \<^verbatim>\<open>Evaluate\<close>, whose frame is of
  interest, works on an explicit store of cells.
\<close>

type_synonym vec = "real list"

text \<open>The two context structs of \<^verbatim>\<open>first_order_function.h\<close>. A pointer to a history column
  that is written through is an optional slot number; a pointer to a column that is only read
  is the column.\<close>

record NextDirectionUpdateContext =
  valid :: bool
  delta_x_history_col_next :: "nat option"
  delta_gradient_history_col_next :: "nat option"
  delta_x_dot_delta_gradient_next :: "nat option"
  approximate_eigenvalue_scale_next :: "nat option"

record RightMultiplyContext =
  rm_valid :: bool
  delta_x_history_col_it :: vec
  delta_x_dot_delta_gradient_it :: real
  delta_gradient_history_col_it :: vec

text \<open>The arguments of \<^verbatim>\<open>NextDirection\<close>, in the order of the source. The callback
  \<^verbatim>\<open>getRightMultiplyContext\<close> takes no argument and is called repeatedly: it is modelled
  by the list of the contexts that its successive calls return; once the list is used up it
  returns the default-constructed context, whose \<^verbatim>\<open>valid\<close> is false.\<close>

record NextDirection_args =
  previous_search_direction :: vec
  previous_step_size :: real
  current_gradient :: vec
  previous_gradient :: vec
  getNextDirectionUpdateContext :: "real \<Rightarrow> NextDirectionUpdateContext"
  approximate_eigenvalue_scale :: real
  search_direction :: vec
  getRightMultiplyContext :: "RightMultiplyContext list"
  use_approximate_eigenvalue_scaling :: bool
  search_direction_dot_current_gradient :: real

text \<open>What a call of \<^verbatim>\<open>NextDirection\<close> leaves behind: the returned flag and the contents
  of its three output parameters.\<close>

record NextDirection_result =
  nd_ok :: bool
  nd_approximate_eigenvalue_scale :: real
  nd_search_direction :: vec
  nd_search_direction_dot_current_gradient :: real

text \<open>What a call of \<^verbatim>\<open>EvaluateGradientNorms\<close> on an objective leaves behind: the returned
  flag and the contents of \<^verbatim>\<open>gradient_squared_norm\<close> and \<^verbatim>\<open>gradient_max_norm\<close>.\<close>

record GradientNorms_result =
  gn_ok :: bool
  gn_gradient_squared_norm :: real
  gn_gradient_max_norm :: real

text \<open>What the user's \<^verbatim>\<open>Evaluate\<close> leaves behind: the returned flag, the value stored in
  \<^verbatim>\<open>cost[0]\<close> (if it stored one) and the values stored in \<^verbatim>\<open>gradient[0..n)\<close>.\<close>

record Evaluate_result =
  ev_ok :: bool
  ev_cost :: "real option"
  ev_gradient :: vec

text \<open>
  A \<^verbatim>\<open>FirstOrderFunction\<close> object is its table of virtual functions. \<^verbatim>\<open>Evaluate\<close> and
  \<^verbatim>\<open>NumParameters\<close> are pure virtual, so every object supplies them; the second argument
  of \<^verbatim>\<open>fn_Evaluate\<close> tells whether \<^verbatim>\<open>gradient\<close> is non-null. The two optional
  capabilities have a body in the base class: an object either overrides one (\<open>Some\<close>) or
  inherits the body of the base class (\<open>None\<close>).
\<close>

record FirstOrderFunction =
  fn_Evaluate :: "vec \<Rightarrow> bool \<Rightarrow> Evaluate_result"
  fn_NumParameters :: int
  override_EvaluateGradientNorms :: "(vec \<Rightarrow> vec \<Rightarrow> real \<Rightarrow> real \<Rightarrow> GradientNorms_result) option"
  override_NextDirection :: "(NextDirection_args \<Rightarrow> NextDirection_result) option"

section \<open>first\_order\_function.h\<close>

text \<open>The body of \<^verbatim>\<open>FirstOrderFunction::EvaluateGradientNorms\<close> in the base class is
  \<^verbatim>\<open>return false;\<close>: neither output is assigned.\<close>

definition FirstOrderFunction_EvaluateGradientNorms ::
  "vec \<Rightarrow> vec \<Rightarrow> real \<Rightarrow> real \<Rightarrow> GradientNorms_result" where
  "FirstOrderFunction_EvaluateGradientNorms x gradient gradient_squared_norm gradient_max_norm =
     \<lparr>gn_ok = False,
      gn_gradient_squared_norm = gradient_squared_norm,
      gn_gradient_max_norm = gradient_max_norm\<rparr>"

text \<open>The body of \<^verbatim>\<open>FirstOrderFunction::NextDirection\<close> in the base class is
  \<^verbatim>\<open>return false;\<close> as well: no callback is called and no output is assigned.\<close>

definition FirstOrderFunction_NextDirection :: "NextDirection_args \<Rightarrow> NextDirection_result" where
  "FirstOrderFunction_NextDirection a =
     \<lparr>nd_ok = False,
      nd_approximate_eigenvalue_scale = approximate_eigenvalue_scale a,
      nd_search_direction = search_direction a,
      nd_search_direction_dot_current_gradient = search_direction_dot_current_gradient a\<rparr>"

text \<open>Virtual dispatch on an object: the override when there is one, the base body otherwise.\<close>

definition call_EvaluateGradientNorms ::
  "FirstOrderFunction \<Rightarrow> vec \<Rightarrow> vec \<Rightarrow> real \<Rightarrow> real \<Rightarrow> GradientNorms_result" where
  "call_EvaluateGradientNorms f =
     (case override_EvaluateGradientNorms f of
        None \<Rightarrow> FirstOrderFunction_EvaluateGradientNorms
      | Some g \<Rightarrow> g)"

definition call_NextDirection :: "FirstOrderFunction \<Rightarrow> NextDirection_args \<Rightarrow> NextDirection_result" where
  "call_NextDirection f =
     (case override_NextDirection f of
        None \<Rightarrow> FirstOrderFunction_NextDirection
      | Some g \<Rightarrow> g)"

section \<open>gradient\_problem.h\<close>

text \<open>
  \<^verbatim>\<open>local_parameterization.h\<close> is not among the files embedded here. A
  \<^verbatim>\<open>LocalParameterization\<close> object is taken as the table of the virtual functions that the
  gradient problem uses: \<^verbatim>\<open>Plus(x, delta, x_plus_delta)\<close>, which returns a flag and
  assigns \<^verbatim>\<open>x_plus_delta\<close>, and the two sizes.
\<close>

record LocalParameterization =
  lp_Plus :: "vec \<Rightarrow> vec \<Rightarrow> vec \<Rightarrow> bool \<times> vec"
  lp_GlobalSize :: int
  lp_LocalSize :: int

text \<open>The three private members of \<^verbatim>\<open>GradientProblem\<close>; a null
  \<^verbatim>\<open>parameterization_\<close> is \<open>None\<close>.\<close>

record GradientProblem =
  gp_function :: FirstOrderFunction
  gp_parameterization :: "LocalParameterization option"
  gp_scratch :: vec

text \<open>
  The header declares the member functions of \<^verbatim>\<open>GradientProblem\<close>; their bodies are in
  \<^verbatim>\<open>gradient_problem.cc\<close>, which is not among the files embedded here. Each of the
  definitions of this section is therefore written from the specification of the
  ObjectiveProblem component.
\<close>

text \<open>Modelled from the spec: the body of the constructor \<^verbatim>\<open>GradientProblem(function)\<close> is
  missing. "Exclusively owns one ObjectiveContract instance and zero-or-one Retraction instance";
  "owns a scratch buffer of length n allocated once at construction".\<close>

definition GradientProblem_new :: "FirstOrderFunction \<Rightarrow> GradientProblem" where
  "GradientProblem_new f =
     \<lparr>gp_function = f,
      gp_parameterization = None,
      gp_scratch = replicate (nat (fn_NumParameters f)) 0\<rparr>"

text \<open>Modelled from the spec: the body of the constructor
  \<^verbatim>\<open>GradientProblem(function, parameterization)\<close> is missing; same sentences.\<close>

definition GradientProblem_new2 :: "FirstOrderFunction \<Rightarrow> LocalParameterization \<Rightarrow> GradientProblem" where
  "GradientProblem_new2 f parameterization =
     \<lparr>gp_function = f,
      gp_parameterization = Some parameterization,
      gp_scratch = replicate (nat (fn_NumParameters f)) 0\<rparr>"

text \<open>Modelled from the spec: the body of \<^verbatim>\<open>GradientProblem::NumParameters\<close> is missing.
  "\<^verbatim>\<open>NumParameters()\<close>, \<^verbatim>\<open>NumLocalParameters()\<close>: forwarded from the owned
  contract/retraction."\<close>

definition GradientProblem_NumParameters :: "GradientProblem \<Rightarrow> int" where
  "GradientProblem_NumParameters p = fn_NumParameters (gp_function p)"

text \<open>Modelled from the spec: the body of \<^verbatim>\<open>GradientProblem::NumLocalParameters\<close> is
  missing. Forwarded from the retraction; when it is absent, "tangent dimension = ambient
  dimension".\<close>

definition GradientProblem_NumLocalParameters :: "GradientProblem \<Rightarrow> int" where
  "GradientProblem_NumLocalParameters p =
     (case gp_parameterization p of
        None \<Rightarrow> fn_NumParameters (gp_function p)
      | Some lp \<Rightarrow> lp_LocalSize lp)"

text \<open>Modelled from the spec: the body of \<^verbatim>\<open>GradientProblem::Plus\<close> is missing.
  "\<^verbatim>\<open>Plus(x, delta) \<rightarrow> x_plus_delta\<close>: forwards to owned Retraction, or identity-add
  fallback"; "when absent, ObjectiveProblem substitutes ordinary vector addition over the full
  ambient space". The addition runs over the indices \<open>0..<NumParameters\<close>; the caller's
  arrays \<^verbatim>\<open>x\<close> and \<^verbatim>\<open>delta\<close> hold that many entries.\<close>

definition GradientProblem_Plus :: "GradientProblem \<Rightarrow> vec \<Rightarrow> vec \<Rightarrow> vec \<Rightarrow> bool \<times> vec" where
  "GradientProblem_Plus p x delta x_plus_delta =
     (case gp_parameterization p of
        None \<Rightarrow> (True, map (\<lambda>i. x ! i + delta ! i) [0..<nat (GradientProblem_NumParameters p)])
      | Some lp \<Rightarrow> lp_Plus lp x delta x_plus_delta)"

text \<open>Modelled from the spec: the body of \<^verbatim>\<open>GradientProblem::EvaluateGradientNorms\<close> is
  missing. "Forwards to the contract's capability; if unsupported, the ObjectiveProblem itself
  must not silently invent a formula -- it signals unsupported".\<close>

definition GradientProblem_EvaluateGradientNorms ::
  "GradientProblem \<Rightarrow> vec \<Rightarrow> vec \<Rightarrow> real \<Rightarrow> real \<Rightarrow> GradientNorms_result" where
  "GradientProblem_EvaluateGradientNorms p x gradient gradient_squared_norm gradient_max_norm =
     call_EvaluateGradientNorms (gp_function p) x gradient gradient_squared_norm gradient_max_norm"

text \<open>Modelled from the spec: the body of \<^verbatim>\<open>GradientProblem::NextDirection\<close> is missing.
  "\<^verbatim>\<open>NextDirection(...) \<rightarrow> success\<close>: forwards to the contract's optional capability."\<close>

definition GradientProblem_NextDirection :: "GradientProblem \<Rightarrow> NextDirection_args \<Rightarrow> NextDirection_result" where
  "GradientProblem_NextDirection p a = call_NextDirection (gp_function p) a"

subsection \<open>The store\<close>

text \<open>
  \<^verbatim>\<open>Evaluate\<close> is given raw pointers into the caller's memory. The store maps the address
  of a \<^verbatim>\<open>double\<close> cell to its contents; a pointer is an optional address, \<open>None\<close> being
  the null pointer. Beside the cells, the world holds the wall clock: the reading that each
  successive call of \<^verbatim>\<open>WallTimeInSeconds\<close> returns, and the number of calls so far.
\<close>

type_synonym addr = nat
type_synonym ptr = "addr option"

record world =
  cells :: "addr \<Rightarrow> real"
  wall_clock :: "nat \<Rightarrow> real"
  clock_reads :: nat

definition load :: "(addr \<Rightarrow> real) \<Rightarrow> addr \<Rightarrow> nat \<Rightarrow> vec" where
  "load h a n = map (\<lambda>i. h (a + i)) [0..<n]"

definition store :: "(addr \<Rightarrow> real) \<Rightarrow> addr \<Rightarrow> vec \<Rightarrow> (addr \<Rightarrow> real)" where
  "store h a vs = (\<lambda>b. if a \<le> b \<and> b < a + length vs then vs ! (b - a) else h b)"

text \<open>Modelled from the spec: the body of \<^verbatim>\<open>GradientProblem::Evaluate\<close> is missing.
  "\<^verbatim>\<open>Evaluate(parameters, cost, gradient?) \<rightarrow> success\<close>: forwards to the owned
  ObjectiveContract"; of the contract: "cost output is mandatory; gradient output is written
  only if requested (non-absent pointer)". The objective reads \<^verbatim>\<open>parameters[0..n)\<close>, and
  what it stores goes to \<^verbatim>\<open>cost[0]\<close> and, when \<^verbatim>\<open>gradient\<close> is not null, to
  \<^verbatim>\<open>gradient[0..n)\<close>.\<close>

definition GradientProblem_Evaluate ::
  "GradientProblem \<Rightarrow> world \<Rightarrow> addr \<Rightarrow> addr \<Rightarrow> ptr \<Rightarrow> bool \<times> world" where
  "GradientProblem_Evaluate p w parameters cost gradient =
     (let n = nat (GradientProblem_NumParameters p);
          r = fn_Evaluate (gp_function p) (load (cells w) parameters n) (gradient \<noteq> None);
          h1 = (case ev_cost r of None \<Rightarrow> cells w | Some c \<Rightarrow> (cells w)(cost := c));
          h2 = (case gradient of None \<Rightarrow> h1 | Some g \<Rightarrow> store h1 g (take n (ev_gradient r)))
      in (ev_ok r, w\<lparr>cells := h2\<rparr>))"

section \<open>Call-time accounting\<close>

text \<open>
  \<^verbatim>\<open>execution_summary.h\<close> and \<^verbatim>\<open>wall_time.h\<close> are not among the files embedded here; the
  evaluator uses their \<^verbatim>\<open>CallStatistics\<close>, \<^verbatim>\<open>ExecutionSummary\<close> and
  \<^verbatim>\<open>ScopedExecutionTimer\<close>.
\<close>

text \<open>Modelled from the spec: the struct \<^verbatim>\<open>CallStatistics\<close> is missing.
  "\<^verbatim>\<open>Statistics()\<close> \<open>\<rightarrow>\<close> mapping from label (string) to
  \<open>{call_count, total_elapsed_time}\<close>". The count is unbounded here: the counts that are
  reasoned about are far below the range of a machine integer.\<close>

record CallStatistics =
  time :: real
  calls :: int

type_synonym ExecutionSummary = "string \<rightharpoonup> CallStatistics"

text \<open>Modelled from the spec: \<^verbatim>\<open>ExecutionSummary::IncrementTimeBy\<close> is missing. The summary
  "exposes accumulated timing": one more call under the label, and the elapsed time added to the
  label's total; a label that has no entry yet starts from zero calls and zero time.\<close>

definition IncrementTimeBy :: "ExecutionSummary \<Rightarrow> string \<Rightarrow> real \<Rightarrow> ExecutionSummary" where
  "IncrementTimeBy summary name v =
     (let call_stats = (case summary name of
                          None \<Rightarrow> \<lparr>time = 0, calls = 0\<rparr>
                        | Some cs \<Rightarrow> cs)
      in summary(name \<mapsto> \<lparr>time = time call_stats + v, calls = calls call_stats + 1\<rparr>))"

text \<open>Modelled from the spec: \<^verbatim>\<open>WallTimeInSeconds\<close> is missing ("wall-clock accounting").
  A call returns the next reading of the clock.\<close>

definition WallTimeInSeconds :: "world \<Rightarrow> real \<times> world" where
  "WallTimeInSeconds w = (wall_clock w (clock_reads w), w\<lparr>clock_reads := Suc (clock_reads w)\<rparr>)"

section \<open>gradient\_problem\_evaluator.h\<close>

text \<open>Modelled from the spec: the macro \<^verbatim>\<open>CHECK\<close> is missing. A failed check is a "fatal
  contract violation" that "must halt execution": the call does not return, which is the value
  \<open>Inl CHECK_failed\<close> of the model.\<close>

datatype fatal = CHECK_failed

text \<open>The two members of \<^verbatim>\<open>GradientProblemEvaluator\<close>, \<^verbatim>\<open>problem_\<close> and
  \<^verbatim>\<open>execution_summary_\<close>.\<close>

record GradientProblemEvaluator =
  gpe_problem :: GradientProblem
  gpe_execution_summary :: ExecutionSummary

text \<open>The constructor stores the problem; the summary is default-constructed, with no entry.\<close>

definition GradientProblemEvaluator_new :: "GradientProblem \<Rightarrow> GradientProblemEvaluator" where
  "GradientProblemEvaluator_new problem = \<lparr>gpe_problem = problem, gpe_execution_summary = Map.empty\<rparr>"

text \<open>\<^verbatim>\<open>SparseMatrix* CreateJacobian() const final { return nullptr; }\<close>\<close>

definition CreateJacobian :: "GradientProblemEvaluator \<Rightarrow> ptr" where
  "CreateJacobian e = None"

text \<open>
  \<^verbatim>\<open>Evaluate\<close>. The check comes first. The two timers are local objects: each constructor
  reads the clock, and the destructors run in the reverse order of construction when the function
  returns, that of \<^verbatim>\<open>call_type_timer\<close> before that of \<^verbatim>\<open>total_timer\<close>; each destructor
  reads the clock again and adds the difference under its label. \<^verbatim>\<open>evaluate_options\<close> and
  \<^verbatim>\<open>residuals\<close> do not occur in the body.
\<close>

definition Evaluate ::
  "GradientProblemEvaluator \<Rightarrow> world \<Rightarrow> 'o \<Rightarrow> addr \<Rightarrow> addr \<Rightarrow> ptr \<Rightarrow> ptr \<Rightarrow> ptr
     \<Rightarrow> fatal + (bool \<times> GradientProblemEvaluator \<times> world)" where
  "Evaluate e w evaluate_options state cost residuals gradient jacobian =
     (if jacobian \<noteq> None then Inl CHECK_failed
      else
        let (total_start, w1) = WallTimeInSeconds w;
            (call_type_start, w2) = WallTimeInSeconds w1;
            call_type = (if gradient = None then ''Evaluator::Residual'' else ''Evaluator::Jacobian'');
            (ok, w3) = GradientProblem_Evaluate (gpe_problem e) w2 state cost gradient;
            (call_type_end, w4) = WallTimeInSeconds w3;
            summary1 = IncrementTimeBy (gpe_execution_summary e) call_type (call_type_end - call_type_start);
            (total_end, w5) = WallTimeInSeconds w4;
            summary2 = IncrementTimeBy summary1 ''Evaluator::Total'' (total_end - total_start)
        in Inr (ok, e\<lparr>gpe_execution_summary := summary2\<rparr>, w5))"

text \<open>\<^verbatim>\<open>Plus\<close> forwards to the problem.\<close>

definition Plus :: "GradientProblemEvaluator \<Rightarrow> vec \<Rightarrow> vec \<Rightarrow> vec \<Rightarrow> bool \<times> vec" where
  "Plus e state delta state_plus_delta = GradientProblem_Plus (gpe_problem e) state delta state_plus_delta"

text \<open>The fields of \<^verbatim>\<open>LineSearchMinimizer::State\<close> that \<^verbatim>\<open>EvaluateGradientNorms\<close> names;
  the struct itself is declared elsewhere.\<close>

record State =
  gradient :: vec
  gradient_squared_norm :: real
  gradient_max_norm :: real

text \<open>
  \<^verbatim>\<open>EvaluateGradientNorms\<close>. The member of the base class, \<^verbatim>\<open>Evaluator::EvaluateGradientNorms\<close>,
  is declared in \<^verbatim>\<open>evaluator.h\<close>, which is not among the files embedded here: it is the
  parameter \<open>base\<close>, a function of \<^verbatim>\<open>x\<close>, \<^verbatim>\<open>*state\<close> and \<^verbatim>\<open>*message\<close> that returns its
  flag with the new \<^verbatim>\<open>*state\<close> and \<^verbatim>\<open>*message\<close>. The problem is handed pointers to the two
  norm fields of the state, so whatever it stored there is in the state that the base member sees.
\<close>

definition EvaluateGradientNorms ::
  "GradientProblemEvaluator \<Rightarrow> (vec \<Rightarrow> State \<Rightarrow> string \<Rightarrow> bool \<times> State \<times> string)
     \<Rightarrow> vec \<Rightarrow> State \<Rightarrow> string \<Rightarrow> bool \<times> State \<times> string" where
  "EvaluateGradientNorms e base x state message =
     (let r = GradientProblem_EvaluateGradientNorms (gpe_problem e) x (gradient state)
                (gradient_squared_norm state) (gradient_max_norm state);
          state1 = state\<lparr>gradient_squared_norm := gn_gradient_squared_norm r,
                         gradient_max_norm := gn_gradient_max_norm r\<rparr>
      in if gn_ok r then (True, state1, message)
         else base x state1 message)"

text \<open>\<^verbatim>\<open>NextDirection\<close> forwards its ten arguments to the problem.\<close>

definition NextDirection :: "GradientProblemEvaluator \<Rightarrow> NextDirection_args \<Rightarrow> NextDirection_result" where
  "NextDirection e a = GradientProblem_NextDirection (gpe_problem e) a"

definition NumParameters :: "GradientProblemEvaluator \<Rightarrow> int" where
  "NumParameters e = GradientProblem_NumParameters (gpe_problem e)"

definition NumEffectiveParameters :: "GradientProblemEvaluator \<Rightarrow> int" where
  "NumEffectiveParameters e = GradientProblem_NumLocalParameters (gpe_problem e)"

text \<open>\<^verbatim>\<open>int NumResiduals() const final { return 1; }\<close>\<close>

definition NumResiduals :: "GradientProblemEvaluator \<Rightarrow> int" where
  "NumResiduals e = 1"

text \<open>\<^verbatim>\<open>Statistics\<close> returns the map of the summary.\<close>

definition Statistics :: "GradientProblemEvaluator \<Rightarrow> (string \<rightharpoonup> CallStatistics)" where
  "Statistics e = gpe_execution_summary e"

subsection \<open>Sequences of calls on one evaluator\<close>

text \<open>
  A client holds one evaluator and calls its member functions one after the other. A call is a
  member function with its arguments; it answers with what the member function returns and
  leaves an evaluator and a world behind. The member functions declared \<^verbatim>\<open>const\<close> cannot
  assign a member, and the body of \<^verbatim>\<open>EvaluateGradientNorms\<close> assigns none; the base member
  it may call has no access to the private \<^verbatim>\<open>execution_summary_\<close>.
\<close>

datatype 'o call =
  Call_Evaluate 'o addr addr ptr ptr ptr
| Call_Plus vec vec vec
| Call_EvaluateGradientNorms vec State string
| Call_NextDirection NextDirection_args
| Call_NumParameters
| Call_NumEffectiveParameters
| Call_NumResiduals
| Call_CreateJacobian
| Call_Statistics

datatype reply =
  Evaluate_returned bool
| Plus_returned bool vec
| EvaluateGradientNorms_returned bool State string
| NextDirection_returned NextDirection_result
| NumParameters_returned int
| NumEffectiveParameters_returned int
| NumResiduals_returned int
| CreateJacobian_returned ptr
| Statistics_returned "string \<rightharpoonup> CallStatistics"

fun is_Evaluate :: "'o call \<Rightarrow> bool" where
  "is_Evaluate (Call_Evaluate evaluate_options state cost residuals grad jacobian) = True"
| "is_Evaluate c = False"

fun invoke ::
  "(vec \<Rightarrow> State \<Rightarrow> string \<Rightarrow> bool \<times> State \<times> string) \<Rightarrow> 'o call
     \<Rightarrow> GradientProblemEvaluator \<times> world \<Rightarrow> fatal + (reply \<times> GradientProblemEvaluator \<times> world)" where
  "invoke base (Call_Evaluate evaluate_options state cost residuals grad jacobian) (e, w) =
     (case Evaluate e w evaluate_options state cost residuals grad jacobian of
        Inl f \<Rightarrow> Inl f
      | Inr (ok, e', w') \<Rightarrow> Inr (Evaluate_returned ok, e', w'))"
| "invoke base (Call_Plus state delta state_plus_delta) (e, w) =
     (case Plus e state delta state_plus_delta of
        (ok, v) \<Rightarrow> Inr (Plus_returned ok v, e, w))"
| "invoke base (Call_EvaluateGradientNorms x state message) (e, w) =
     (case EvaluateGradientNorms e base x state message of
        (ok, state', message') \<Rightarrow> Inr (EvaluateGradientNorms_returned ok state' message', e, w))"
| "invoke base (Call_NextDirection a) (e, w) = Inr (NextDirection_returned (NextDirection e a), e, w)"
| "invoke base Call_NumParameters (e, w) = Inr (NumParameters_returned (NumParameters e), e, w)"
| "invoke base Call_NumEffectiveParameters (e, w) =
     Inr (NumEffectiveParameters_returned (NumEffectiveParameters e), e, w)"
| "invoke base Call_NumResiduals (e, w) = Inr (NumResiduals_returned (NumResiduals e), e, w)"
| "invoke base Call_CreateJacobian (e, w) = Inr (CreateJacobian_returned (CreateJacobian e), e, w)"
| "invoke base Call_Statistics (e, w) = Inr (Statistics_returned (Statistics e), e, w)"

text \<open>A sequence of calls stops at the first fatal failure.\<close>

fun invoke_all ::
  "(vec \<Rightarrow> State \<Rightarrow> string \<Rightarrow> bool \<times> State \<times> string) \<Rightarrow> 'o call list
     \<Rightarrow> GradientProblemEvaluator \<times> world \<Rightarrow> fatal + (reply list \<times> GradientProblemEvaluator \<times> world)" where
  "invoke_all base [] (e, w) = Inr ([], e, w)"
| "invoke_all base (c # cs) (e, w) =
     (case invoke base c (e, w) of
        Inl f \<Rightarrow> Inl f
      | Inr (r, e', w') \<Rightarrow>
          (case invoke_all base cs (e', w') of
             Inl f \<Rightarrow> Inl f
           | Inr (rs, e'', w'') \<Rightarrow> Inr (r # rs, e'', w'')))"

section \<open>The quasi-Newton direction update\<close>

text \<open>
  No override of \<^verbatim>\<open>NextDirection\<close> is among the files embedded here: the only body is that of
  the base class. The algorithm that an override is to run is the two-loop recursion of the
  specification's QuasiNewtonDirectionUpdater component; this section writes it down from there.
\<close>

definition dot :: "vec \<Rightarrow> vec \<Rightarrow> real" where
  "dot u v = sum_list (map2 (*) u v)"

text \<open>The squared Euclidean norm of a vector.\<close>

definition squared_norm :: "vec \<Rightarrow> real" where
  "squared_norm v = sum_list (map (\<lambda>x. x * x) v)"

text \<open>Modelled from the spec: the override of \<^verbatim>\<open>NextDirection\<close> is missing. "First pass
  (newest \<open>\<rightarrow>\<close> oldest): maintain a working vector \<open>q\<close> initialized to the current gradient;
  for each valid history pair with \<open>\<rho> = 1/(s\<cdot>y)\<close> (skip the pair if \<open>s\<cdot>y \<le> \<epsilon>\<close>), compute
  \<open>\<alpha> = \<rho>\<cdot>(s\<cdot>q)\<close>, accumulate \<open>\<alpha>\<close> per pair, update \<open>q \<leftarrow> q - \<alpha>\<cdot>y\<close>." The callback
  "yields one stored history slot per call until it reports invalid (exhausted)". The pass
  returns \<open>q\<close> and the pairs it used with their \<open>\<alpha>\<close>, newest first.\<close>

fun first_pass ::
  "real \<Rightarrow> vec \<Rightarrow> RightMultiplyContext list \<Rightarrow> vec \<times> (RightMultiplyContext \<times> real) list" where
  "first_pass eps q [] = (q, [])"
| "first_pass eps q (c # cs) =
     (if \<not> rm_valid c then (q, [])
      else if delta_x_dot_delta_gradient_it c \<le> eps then first_pass eps q cs
      else
        let rho = 1 / delta_x_dot_delta_gradient_it c;
            alpha = rho * dot (delta_x_history_col_it c) q;
            q' = map2 (\<lambda>qi yi. qi - alpha * yi) q (delta_gradient_history_col_it c);
            (q'', used) = first_pass eps q' cs
        in (q'', (c, alpha) # used))"

text \<open>Modelled from the spec: "Second pass (oldest \<open>\<rightarrow>\<close> newest) over the same valid pairs:
  \<open>\<beta> = \<rho>\<cdot>(y\<cdot>r)\<close>, \<open>r \<leftarrow> r + s\<cdot>(\<alpha> - \<beta>)\<close>." The list argument is in the order of the
  pass.\<close>

fun second_pass :: "vec \<Rightarrow> (RightMultiplyContext \<times> real) list \<Rightarrow> vec" where
  "second_pass r [] = r"
| "second_pass r ((c, alpha) # rest) =
     (let rho = 1 / delta_x_dot_delta_gradient_it c;
          beta = rho * dot (delta_gradient_history_col_it c) r;
          r' = map2 (\<lambda>ri si. ri + si * (alpha - beta)) r (delta_x_history_col_it c)
      in second_pass r' rest)"

text \<open>Modelled from the spec: the override of \<^verbatim>\<open>NextDirection\<close> is missing. Step 2 of
  its algorithm: "Scale \<open>q\<close> by an initial Hessian approximation: identity, or the supplied
  approximate-eigenvalue scale when eigenvalue-based scaling is requested". The identity is
  the scale 1.\<close>

definition initial_scale :: "NextDirection_args \<Rightarrow> real" where
  "initial_scale a =
     (if use_approximate_eigenvalue_scaling a then approximate_eigenvalue_scale a else 1)"

text \<open>Modelled from the spec: the override of \<^verbatim>\<open>NextDirection\<close> is missing. The first
  pass runs from the current gradient. "Edge cases: empty history \<open>\<Rightarrow>\<close> direction =
  \<open>-current_gradient\<close> (steepest descent); every pair failing the curvature screen
  \<open>\<Rightarrow>\<close> same fallback": when the first pass has used no pair, the direction is the
  negated gradient, whatever scaling is requested. Otherwise the scaling, the second pass over
  the pairs of the first in the opposite order, and step 4: "New direction = \<open>-r\<close>." In both
  cases: "Also compute and return the directional derivative
  \<open>direction \<cdot> current_gradient\<close>". The formula that refreshes the eigenvalue scale and the
  recording of the newest pair through \<^verbatim>\<open>getNextDirectionUpdateContext\<close> are left open by
  the specification; they are not modelled, and the scale is the one supplied. The threshold
  \<open>\<epsilon>\<close> is the parameter \<open>eps\<close>.\<close>

definition QuasiNewton_NextDirection :: "real \<Rightarrow> NextDirection_args \<Rightarrow> NextDirection_result" where
  "QuasiNewton_NextDirection eps a =
     (let (q, used) = first_pass eps (current_gradient a) (getRightMultiplyContext a);
          direction =
            (if used = [] then map uminus (current_gradient a)
             else
               let r0 = map (\<lambda>qi. initial_scale a * qi) q;
                   r = second_pass r0 (rev used)
               in map uminus r)
      in \<lparr>nd_ok = True,
          nd_approximate_eigenvalue_scale = approximate_eigenvalue_scale a,
          nd_search_direction = direction,
          nd_search_direction_dot_current_gradient = dot direction (current_gradient a)\<rparr>)"

text \<open>The history yields no valid pair: every context that the callback returns before its
  first invalid one fails the curvature screen \<open>s\<cdot>y > \<epsilon>\<close>. The empty history is the case
  of no context at all.\<close>

definition no_valid_pair :: "real \<Rightarrow> RightMultiplyContext list \<Rightarrow> bool" where
  "no_valid_pair eps cs =
     list_all (\<lambda>c. delta_x_dot_delta_gradient_it c \<le> eps) (takeWhile rm_valid cs)"

section \<open>Example objects\<close>

text \<open>The objective of the example in \<^verbatim>\<open>gradient_problem.h\<close>, Rosenbrock's function
  \<open>f(x,y) = (1-x)\<^sup>2 + 100(y - x\<^sup>2)\<^sup>2\<close>: it overrides neither optional capability.\<close>

definition Rosenbrock :: FirstOrderFunction where
  "Rosenbrock =
     \<lparr>fn_Evaluate = (\<lambda>parameters gradient_wanted.
        let x = parameters ! 0; y = parameters ! 1
        in \<lparr>ev_ok = True,
            ev_cost = Some ((1 - x) * (1 - x) + 100 * (y - x * x) * (y - x * x)),
            ev_gradient = (if gradient_wanted
                           then [- 2 * (1 - x) - 200 * (y - x * x) * 2 * x, 200 * (y - x * x)]
                           else [])\<rparr>),
      fn_NumParameters = 2,
      override_EvaluateGradientNorms = None,
      override_NextDirection = None\<rparr>"

text \<open>The evaluator of the Rosenbrock problem, freshly constructed, with no local
  parameterization.\<close>

definition Rosenbrock_evaluator :: GradientProblemEvaluator where
  "Rosenbrock_evaluator = GradientProblemEvaluator_new (GradientProblem_new Rosenbrock)"

text \<open>A world whose cells hold zero, so that the parameters read at any address are the
  point \<open>(0, 0)\<close>, and whose clock advances by one second from one reading to the next.\<close>

definition ticking_world :: world where
  "ticking_world = \<lparr>cells = (\<lambda>a. 0), wall_clock = (\<lambda>i. of_nat i), clock_reads = 0\<rparr>"

text \<open>The arguments of the first call of \<^verbatim>\<open>NextDirection\<close> of a minimization that starts at
  \<open>(0, 0)\<close>, where the gradient of Rosenbrock's function is \<open>(-2, 0)\<close>: nothing has been
  recorded yet, the update context is invalid, the history is empty, and the caller's output
  buffers hold zero.\<close>

definition no_update :: "real \<Rightarrow> NextDirectionUpdateContext" where
  "no_update step_size =
     \<lparr>valid = False,
      delta_x_history_col_next = None,
      delta_gradient_history_col_next = None,
      delta_x_dot_delta_gradient_next = None,
      approximate_eigenvalue_scale_next = None\<rparr>"

definition first_iteration :: NextDirection_args where
  "first_iteration =
     \<lparr>previous_search_direction = [0, 0],
      previous_step_size = 0,
      current_gradient = [- 2, 0],
      previous_gradient = [0, 0],
      getNextDirectionUpdateContext = no_update,
      approximate_eigenvalue_scale = 1,
      search_direction = [0, 0],
      getRightMultiplyContext = [],
      use_approximate_eigenvalue_scaling = False,
      search_direction_dot_current_gradient = 0\<rparr>"

text \<open>A later call whose history holds one pair, of zero curvature.\<close>

definition flat_pair :: RightMultiplyContext where
  "flat_pair =
     \<lparr>rm_valid = True,
      delta_x_history_col_it = [1, 0],
      delta_x_dot_delta_gradient_it = 0,
      delta_gradient_history_col_it = [0, 1]\<rparr>"

definition flat_history :: NextDirection_args where
  "flat_history = first_iteration\<lparr>getRightMultiplyContext := [flat_pair]\<rparr>"

text \<open>The same call with eigenvalue scaling requested and a supplied scale of 2.\<close>

definition flat_history_scaled :: NextDirection_args where
  "flat_history_scaled =
     flat_history\<lparr>approximate_eigenvalue_scale := 2, use_approximate_eigenvalue_scaling := True\<rparr>"

text \<open>A call whose history holds one pair of positive curvature, \<open>s = (1, 0)\<close>,
  \<open>y = (2, 0)\<close>, \<open>s\<cdot>y = 2\<close>.\<close>

definition curved_pair :: RightMultiplyContext where
  "curved_pair =
     \<lparr>rm_valid = True,
      delta_x_history_col_it = [1, 0],
      delta_x_dot_delta_gradient_it = 2,
      delta_gradient_history_col_it = [2, 0]\<rparr>"

definition curved_history :: NextDirection_args where
  "curved_history = first_iteration\<lparr>getRightMultiplyContext := [curved_pair]\<rparr>"

text \<open>The Rosenbrock objective with the two-loop recursion as its override of
  \<^verbatim>\<open>NextDirection\<close>, and its evaluator.\<close>

definition Rosenbrock_quasi_Newton :: FirstOrderFunction where
  "Rosenbrock_quasi_Newton =
     Rosenbrock\<lparr>override_NextDirection := Some (QuasiNewton_NextDirection (1 / 1000))\<rparr>"

definition quasi_Newton_evaluator :: GradientProblemEvaluator where
  "quasi_Newton_evaluator = GradientProblemEvaluator_new (GradientProblem_new Rosenbrock_quasi_Newton)"

text \<open>The Rosenbrock objective with an override of \<^verbatim>\<open>EvaluateGradientNorms\<close> that computes
  the squared norm and reports the maximum norm as zero, and its evaluator.\<close>

definition Rosenbrock_with_norms :: FirstOrderFunction where
  "Rosenbrock_with_norms =
     Rosenbrock\<lparr>override_EvaluateGradientNorms :=
       Some (\<lambda>x g gradient_squared_norm gradient_max_norm.
              \<lparr>gn_ok = True,
               gn_gradient_squared_norm = squared_norm g,
               gn_gradient_max_norm = 0\<rparr>)\<rparr>"

definition norms_evaluator :: GradientProblemEvaluator where
  "norms_evaluator = GradientProblemEvaluator_new (GradientProblem_new Rosenbrock_with_norms)"

text \<open>A stand-in for the base member \<^verbatim>\<open>Evaluator::EvaluateGradientNorms\<close>: it fails and says
  so in the message.\<close>

definition failing_base :: "vec \<Rightarrow> State \<Rightarrow> string \<Rightarrow> bool \<times> State \<times> string" where
  "failing_base x state message = (False, state, ''base'')"

definition start_state :: State where
  "start_state = \<lparr>gradient = [- 2, 0], gradient_squared_norm = 0, gradient_max_norm = 0\<rparr>"

text \<open>A local parameterization of the plane that holds the second coordinate constant: the
  tangent space has dimension one.\<close>

definition hold_second :: LocalParameterization where
  "hold_second =
     \<lparr>lp_Plus = (\<lambda>x delta x_plus_delta. (True, [x ! 0 + delta ! 0, x ! 1])),
      lp_GlobalSize = 2,
      lp_LocalSize = 1\<rparr>"

definition constrained_evaluator :: GradientProblemEvaluator where
  "constrained_evaluator = GradientProblemEvaluator_new (GradientProblem_new2 Rosenbrock hold_second)"




text \<open>The ticking world with 7 in the cell at address 2.\<close>

definition seven_at_cost :: world where
  "seven_at_cost = ticking_world\<lparr>cells := (cells ticking_world)(2 := 7)\<rparr>"

text \<open>What a cell holds after a call of \<^verbatim>\<open>Evaluate\<close>; nothing when the call ended in a
  fatal failure.\<close>

definition cell_after ::
  "fatal + (bool \<times> GradientProblemEvaluator \<times> world) \<Rightarrow> addr \<Rightarrow> real option" where
  "cell_after outcome a =
     (case outcome of
        Inl f \<Rightarrow> None
      | Inr (ok, e, w) \<Rightarrow> Some (cells w a))"

text \<open>A sequence of calls that names every member function but \<^verbatim>\<open>Evaluate\<close>.\<close>

definition queries :: "unit call list" where
  "queries =
     [Call_Plus [0, 0] [1, 1] [],
      Call_EvaluateGradientNorms [0, 0] start_state [],
      Call_NextDirection first_iteration,
      Call_NumParameters,
      Call_NumEffectiveParameters,
      Call_NumResiduals,
      Call_CreateJacobian,
      Call_Statistics]"

section \<open>Helper lemmas\<close>

lemma Evaluate_returns:
  "\<exists>ok e' w'. Evaluate e w evaluate_options state cost residuals grad None = Inr (ok, e', w')"
  by (simp add: Evaluate_def split: prod.splits)

lemma Evaluate_summary:
  "Evaluate e w evaluate_options state cost residuals grad None = Inr (ok, e', w') \<Longrightarrow>
   gpe_execution_summary e' =
     IncrementTimeBy
       (IncrementTimeBy (gpe_execution_summary e)
          (if grad = None then ''Evaluator::Residual'' else ''Evaluator::Jacobian'')
          (wall_clock w (Suc (Suc (clock_reads w))) - wall_clock w (Suc (clock_reads w))))
       ''Evaluator::Total''
       (wall_clock w (Suc (Suc (Suc (clock_reads w)))) - wall_clock w (clock_reads w))"
  by (auto simp: Evaluate_def WallTimeInSeconds_def GradientProblem_Evaluate_def Let_def
      split: prod.splits)



lemma Evaluate_total_changes:
  assumes "Evaluate e w evaluate_options state cost residuals grad None = Inr (ok, e', w')"
  shows "gpe_execution_summary e' ''Evaluator::Total'' \<noteq> gpe_execution_summary e ''Evaluator::Total''"
proof
  assume "gpe_execution_summary e' ''Evaluator::Total'' = gpe_execution_summary e ''Evaluator::Total''"
  then have "map_option calls (gpe_execution_summary e' ''Evaluator::Total'') =
      map_option calls (gpe_execution_summary e ''Evaluator::Total'')"
    by simp
  then show False
    using Evaluate_summary[OF assms]
    by (simp add: IncrementTimeBy_def split: option.splits if_splits)
qed

lemma load_update_outside: "r < a \<or> a + n \<le> r \<Longrightarrow> load (h(r := v)) a n = load h a n"
  by (auto simp: load_def)

lemma store_update_outside:
  "r < a \<or> a + length vs \<le> r \<Longrightarrow> store (h(r := v)) a vs = (store h a vs)(r := v)"
  by (auto simp: store_def fun_eq_iff)

lemma invoke_not_Evaluate: "\<not> is_Evaluate c \<Longrightarrow> \<exists>r. invoke base c (e, w) = Inr (r, e, w)"
  by (cases c) (auto split: prod.splits)

lemma invoke_all_not_Evaluate:
  "list_all (\<lambda>c. \<not> is_Evaluate c) cs \<Longrightarrow> \<exists>rs. invoke_all base cs (e, w) = Inr (rs, e, w)"
proof (induction cs)
  case Nil
  then show ?case by simp
next
  case (Cons c cs)
  then obtain r where "invoke base c (e, w) = Inr (r, e, w)"
    using invoke_not_Evaluate[of c base e w] by auto
  moreover from Cons obtain rs where "invoke_all base cs (e, w) = Inr (rs, e, w)"
    by auto
  ultimately show ?case by simp
qed

lemma first_pass_no_valid_pair: "no_valid_pair eps cs \<Longrightarrow> first_pass eps q cs = (q, [])"
  by (induction cs) (auto simp: no_valid_pair_def)

lemma dot_negation: "dot (map uminus g) g = - squared_norm g"
  by (induction g) (simp_all add: dot_def squared_norm_def)

lemma QuasiNewton_no_valid_pair:
  assumes "no_valid_pair eps (getRightMultiplyContext a)"
  shows "QuasiNewton_NextDirection eps a =
     \<lparr>nd_ok = True,
      nd_approximate_eigenvalue_scale = approximate_eigenvalue_scale a,
      nd_search_direction = map uminus (current_gradient a),
      nd_search_direction_dot_current_gradient = - squared_norm (current_gradient a)\<rparr>"
  by (simp add: QuasiNewton_NextDirection_def first_pass_no_valid_pair[OF assms] dot_negation)

text \<open>With one pair of positive curvature the recursion leaves the steepest-descent direction:
  at the gradient \<open>(-2, 0)\<close> it returns \<open>(1, 0)\<close>, a descent direction.\<close>

lemma QuasiNewton_curved_example:
  "QuasiNewton_NextDirection (1 / 1000) curved_history =
     \<lparr>nd_ok = True,
      nd_approximate_eigenvalue_scale = 1,
      nd_search_direction = [1, 0],
      nd_search_direction_dot_current_gradient = - 2\<rparr>"
  by (simp add: QuasiNewton_NextDirection_def curved_history_def curved_pair_def
      first_iteration_def initial_scale_def dot_def Let_def)

section \<open>The claims\<close>

text \<open>
  C1. Let the objective's override of \<^verbatim>\<open>NextDirection\<close> be the two-loop recursion, and let
  the history callback yield no valid pair: the history is empty, or every pair it yields fails
  the curvature screen. Then \<^verbatim>\<open>NextDirection\<close> of the problem and of the evaluator return
  true, the search direction they return is the negation of the current gradient, and the
  directional derivative they return is minus the squared Euclidean norm of the current gradient,
  whatever the other arguments are.
\<close>

theorem NextDirection_no_valid_pair:
  assumes "override_NextDirection (gp_function (gpe_problem e)) = Some (QuasiNewton_NextDirection eps)"
    and "no_valid_pair eps (getRightMultiplyContext a)"
  shows "GradientProblem_NextDirection (gpe_problem e) a = NextDirection e a \<and>
     nd_ok (NextDirection e a) \<and>
     nd_search_direction (NextDirection e a) = map uminus (current_gradient a) \<and>
     nd_search_direction_dot_current_gradient (NextDirection e a) =
       - squared_norm (current_gradient a)"
proof -
  have "NextDirection e a = QuasiNewton_NextDirection eps a"
    using assms(1)
    by (simp add: NextDirection_def GradientProblem_NextDirection_def call_NextDirection_def)
  then show ?thesis
    using QuasiNewton_no_valid_pair[OF assms(2)] by (simp add: NextDirection_def)
qed

theorem NextDirection_no_valid_pair_witness:
  "override_NextDirection (gp_function (gpe_problem quasi_Newton_evaluator)) =
     Some (QuasiNewton_NextDirection (1 / 1000)) \<and>
   no_valid_pair (1 / 1000) (getRightMultiplyContext first_iteration) \<and>
   nd_ok (NextDirection quasi_Newton_evaluator first_iteration) \<and>
   nd_search_direction (NextDirection quasi_Newton_evaluator first_iteration) = [2, 0] \<and>
   nd_search_direction_dot_current_gradient (NextDirection quasi_Newton_evaluator first_iteration)
     = - 4 \<and>
   no_valid_pair (1 / 1000) (getRightMultiplyContext flat_history_scaled) \<and>
   nd_ok (NextDirection quasi_Newton_evaluator flat_history_scaled) \<and>
   nd_search_direction (NextDirection quasi_Newton_evaluator flat_history_scaled) = [2, 0] \<and>
   nd_search_direction_dot_current_gradient
     (NextDirection quasi_Newton_evaluator flat_history_scaled) = - 4"
proof -
  have b: "override_NextDirection (gp_function (gpe_problem quasi_Newton_evaluator)) =
     Some (QuasiNewton_NextDirection (1 / 1000))"
    by (simp add: quasi_Newton_evaluator_def GradientProblemEvaluator_new_def GradientProblem_new_def
        Rosenbrock_quasi_Newton_def)
  have c0: "no_valid_pair (1 / 1000) (getRightMultiplyContext first_iteration)"
    by (simp add: no_valid_pair_def first_iteration_def)
  have c1: "no_valid_pair (1 / 1000) (getRightMultiplyContext flat_history_scaled)"
    by (simp add: no_valid_pair_def flat_history_scaled_def flat_history_def flat_pair_def)
  have g: "current_gradient first_iteration = [- 2, 0] \<and>
     current_gradient flat_history_scaled = [- 2, 0]"
    by (simp add: flat_history_scaled_def flat_history_def first_iteration_def)
  show ?thesis
    using b c0 c1 g NextDirection_no_valid_pair[OF b c0] NextDirection_no_valid_pair[OF b c1]
    by (simp add: squared_norm_def)
qed

text \<open>
  C2. A call to \<^verbatim>\<open>Evaluate\<close> with a non-null \<^verbatim>\<open>jacobian\<close> ends in the fatal failure of the
  check, whatever the other arguments are. A call with a null \<^verbatim>\<open>jacobian\<close> never fails the
  check: it returns, and the flag it returns is that of the problem's evaluation, which runs
  after the two timers have read the clock.
\<close>

theorem Evaluate_jacobian_check:
  "(jacobian \<noteq> None \<longrightarrow>
      Evaluate e w evaluate_options state cost residuals grad jacobian = Inl CHECK_failed) \<and>
   (jacobian = None \<longrightarrow>
      (\<exists>e' w'. Evaluate e w evaluate_options state cost residuals grad jacobian =
         Inr (fst (GradientProblem_Evaluate (gpe_problem e)
                     (w\<lparr>clock_reads := Suc (Suc (clock_reads w))\<rparr>) state cost grad), e', w')))"
  by (simp add: Evaluate_def WallTimeInSeconds_def split: prod.splits)

theorem Evaluate_jacobian_check_witness:
  "Some (9::nat) \<noteq> None \<and>
   Evaluate Rosenbrock_evaluator ticking_world () 0 2 None (Some 3) (Some 9) = Inl CHECK_failed \<and>
   (\<exists>e' w'. Evaluate Rosenbrock_evaluator ticking_world () 0 2 None (Some 3) None =
      Inr (True, e', w'))"
proof -
  have "fst (GradientProblem_Evaluate (gpe_problem Rosenbrock_evaluator)
               (ticking_world\<lparr>clock_reads := Suc (Suc (clock_reads ticking_world))\<rparr>) 0 2 (Some 3))"
    by (simp add: GradientProblem_Evaluate_def Rosenbrock_evaluator_def
        GradientProblemEvaluator_new_def GradientProblem_new_def Rosenbrock_def Let_def)
  then show ?thesis
    using Evaluate_jacobian_check[of "Some 9" Rosenbrock_evaluator ticking_world "()" 0 2 None "Some 3"]
      Evaluate_jacobian_check[of None Rosenbrock_evaluator ticking_world "()" 0 2 None "Some 3"]
    by simp
qed




text \<open>
  C4. \<^verbatim>\<open>EvaluateGradientNorms\<close> of the evaluator calls the problem's capability on the
  gradient and the two norm fields of the state. When the capability returns true, the evaluator
  returns true with the state as the capability left it and the message untouched, whatever the
  base member is: the base member is not called. When the capability returns false, the
  evaluator returns exactly what the base member returns on the state as the capability left it.
\<close>

theorem EvaluateGradientNorms_fallback:
  assumes "r = GradientProblem_EvaluateGradientNorms (gpe_problem e) x (gradient state)
                 (gradient_squared_norm state) (gradient_max_norm state)"
    and "state1 = state\<lparr>gradient_squared_norm := gn_gradient_squared_norm r,
                          gradient_max_norm := gn_gradient_max_norm r\<rparr>"
  shows "(gn_ok r \<longrightarrow>
            EvaluateGradientNorms e base x state message = (True, state1, message) \<and>
            EvaluateGradientNorms e base' x state message =
              EvaluateGradientNorms e base x state message) \<and>
         (\<not> gn_ok r \<longrightarrow>
            EvaluateGradientNorms e base x state message = base x state1 message)"
  using assms by (simp add: EvaluateGradientNorms_def Let_def)

theorem EvaluateGradientNorms_fallback_witness:
  "gn_ok (GradientProblem_EvaluateGradientNorms (gpe_problem norms_evaluator) [0, 0]
            (gradient start_state) (gradient_squared_norm start_state)
            (gradient_max_norm start_state)) \<and>
   EvaluateGradientNorms norms_evaluator failing_base [0, 0] start_state [] =
     (True, start_state\<lparr>gradient_squared_norm := 4, gradient_max_norm := 0\<rparr>, []) \<and>
   \<not> gn_ok (GradientProblem_EvaluateGradientNorms (gpe_problem Rosenbrock_evaluator) [0, 0]
            (gradient start_state) (gradient_squared_norm start_state)
            (gradient_max_norm start_state)) \<and>
   EvaluateGradientNorms Rosenbrock_evaluator failing_base [0, 0] start_state [] =
     (False, start_state, ''base'')"
proof -
  have a: "GradientProblem_EvaluateGradientNorms (gpe_problem norms_evaluator) [0, 0]
            (gradient start_state) (gradient_squared_norm start_state)
            (gradient_max_norm start_state) =
          \<lparr>gn_ok = True, gn_gradient_squared_norm = 4, gn_gradient_max_norm = 0\<rparr>"
    by (simp add: GradientProblem_EvaluateGradientNorms_def call_EvaluateGradientNorms_def
        norms_evaluator_def GradientProblemEvaluator_new_def GradientProblem_new_def
        Rosenbrock_with_norms_def start_state_def squared_norm_def)
  have b: "GradientProblem_EvaluateGradientNorms (gpe_problem Rosenbrock_evaluator) [0, 0]
            (gradient start_state) (gradient_squared_norm start_state)
            (gradient_max_norm start_state) =
          \<lparr>gn_ok = False, gn_gradient_squared_norm = 0, gn_gradient_max_norm = 0\<rparr>"
    by (simp add: GradientProblem_EvaluateGradientNorms_def call_EvaluateGradientNorms_def
        FirstOrderFunction_EvaluateGradientNorms_def
        Rosenbrock_evaluator_def GradientProblemEvaluator_new_def GradientProblem_new_def
        Rosenbrock_def start_state_def)
  have c: "EvaluateGradientNorms norms_evaluator failing_base [0, 0] start_state [] =
     (True, start_state\<lparr>gradient_squared_norm := 4, gradient_max_norm := 0\<rparr>, [])"
    using EvaluateGradientNorms_fallback[OF a [symmetric] refl, of failing_base "[]" failing_base]
    by simp
  have d: "EvaluateGradientNorms Rosenbrock_evaluator failing_base [0, 0] start_state [] =
     failing_base [0, 0] (start_state\<lparr>gradient_squared_norm := 0, gradient_max_norm := 0\<rparr>) []"
    using EvaluateGradientNorms_fallback[OF b [symmetric] refl, of failing_base "[]" failing_base]
    by simp
  have "start_state\<lparr>gradient_squared_norm := 0, gradient_max_norm := 0\<rparr> = start_state"
    by (simp add: start_state_def)
  with d have "EvaluateGradientNorms Rosenbrock_evaluator failing_base [0, 0] start_state [] =
     (False, start_state, ''base'')"
    by (simp add: failing_base_def)
  with c show ?thesis
    by (simp add: a b)
qed

text \<open>
  C5. For an objective that overrides neither optional capability, \<^verbatim>\<open>EvaluateGradientNorms\<close>
  and \<^verbatim>\<open>NextDirection\<close> return false whatever their arguments are, and every output
  parameter holds after the call what it held before.
\<close>

theorem FirstOrderFunction_defaults_unsupported:
  "(override_EvaluateGradientNorms f = None \<longrightarrow>
      call_EvaluateGradientNorms f x g gradient_squared_norm_in gradient_max_norm_in =
        \<lparr>gn_ok = False,
         gn_gradient_squared_norm = gradient_squared_norm_in,
         gn_gradient_max_norm = gradient_max_norm_in\<rparr>) \<and>
   (override_NextDirection f = None \<longrightarrow>
      call_NextDirection f a =
        \<lparr>nd_ok = False,
         nd_approximate_eigenvalue_scale = approximate_eigenvalue_scale a,
         nd_search_direction = search_direction a,
         nd_search_direction_dot_current_gradient = search_direction_dot_current_gradient a\<rparr>)"
  by (simp add: call_EvaluateGradientNorms_def call_NextDirection_def
      FirstOrderFunction_EvaluateGradientNorms_def FirstOrderFunction_NextDirection_def)

theorem FirstOrderFunction_defaults_unsupported_witness:
  "override_EvaluateGradientNorms Rosenbrock = None \<and>
   call_EvaluateGradientNorms Rosenbrock [0, 0] [- 2, 0] 7 8 =
     \<lparr>gn_ok = False, gn_gradient_squared_norm = 7, gn_gradient_max_norm = 8\<rparr> \<and>
   override_NextDirection Rosenbrock = None \<and>
   call_NextDirection Rosenbrock first_iteration =
     \<lparr>nd_ok = False, nd_approximate_eigenvalue_scale = 1, nd_search_direction = [0, 0],
      nd_search_direction_dot_current_gradient = 0\<rparr>"
  using FirstOrderFunction_defaults_unsupported[of Rosenbrock "[0, 0]" "[- 2, 0]" 7 8 first_iteration]
  by (simp add: Rosenbrock_def first_iteration_def)

text \<open>
  C6. Without a local parameterization, \<^verbatim>\<open>Plus\<close> on vectors of the ambient dimension
  succeeds and its result has \<open>x[i] + delta[i]\<close> at every index \<open>i\<close> of the ambient space;
  so \<open>Plus(x, 0)\<close> is \<open>x\<close>. With a local parameterization, \<^verbatim>\<open>Plus\<close> is the
  parameterization's: \<open>Plus(x, 0)\<close> is \<open>x\<close> wherever the parameterization keeps to its
  contract \<open>Plus(x, 0) = x\<close>.
\<close>

theorem Plus_zero_and_identity_add:
  "(gp_parameterization (gpe_problem e) = None \<and>
    length x = nat (NumParameters e) \<and> length delta = nat (NumParameters e) \<longrightarrow>
      fst (Plus e x delta x_plus_delta) \<and>
      length (snd (Plus e x delta x_plus_delta)) = nat (NumParameters e) \<and>
      (\<forall>i < nat (NumParameters e). snd (Plus e x delta x_plus_delta) ! i = x ! i + delta ! i) \<and>
      snd (Plus e x (replicate (nat (NumParameters e)) 0) x_plus_delta) = x) \<and>
   (gp_parameterization (gpe_problem e) = Some lp \<and> snd (lp_Plus lp x zero x_plus_delta) = x \<longrightarrow>
      snd (Plus e x zero x_plus_delta) = x)"
  by (auto simp: Plus_def GradientProblem_Plus_def NumParameters_def list_eq_iff_nth_eq)

theorem Plus_zero_and_identity_add_witness:
  "gp_parameterization (gpe_problem Rosenbrock_evaluator) = None \<and>
   length [1, 2 :: real] = nat (NumParameters Rosenbrock_evaluator) \<and>
   length [3, 4 :: real] = nat (NumParameters Rosenbrock_evaluator) \<and>
   (1::nat) < nat (NumParameters Rosenbrock_evaluator) \<and>
   fst (Plus Rosenbrock_evaluator [1, 2] [3, 4] []) \<and>
   snd (Plus Rosenbrock_evaluator [1, 2] [3, 4] []) ! 1 = 6 \<and>
   snd (Plus Rosenbrock_evaluator [1, 2] (replicate (nat (NumParameters Rosenbrock_evaluator)) 0) [])
     = [1, 2] \<and>
   gp_parameterization (gpe_problem constrained_evaluator) = Some hold_second \<and>
   snd (lp_Plus hold_second [1, 2] [0] []) = [1, 2] \<and>
   snd (Plus constrained_evaluator [1, 2] [0] []) = [1, 2]"
proof -
  have a: "gp_parameterization (gpe_problem Rosenbrock_evaluator) = None"
    by (simp add: Rosenbrock_evaluator_def GradientProblemEvaluator_new_def GradientProblem_new_def)
  have n: "nat (NumParameters Rosenbrock_evaluator) = 2"
    by (simp add: NumParameters_def GradientProblem_NumParameters_def Rosenbrock_evaluator_def
        GradientProblemEvaluator_new_def GradientProblem_new_def Rosenbrock_def)
  have b: "gp_parameterization (gpe_problem constrained_evaluator) = Some hold_second"
    by (simp add: constrained_evaluator_def GradientProblemEvaluator_new_def GradientProblem_new2_def)
  have c: "snd (lp_Plus hold_second [1, 2] [0] []) = [1, 2]"
    by (simp add: hold_second_def)
  show ?thesis
    using a n b c
      Plus_zero_and_identity_add[of Rosenbrock_evaluator "[1, 2]" "[3, 4]" "[]" hold_second "[0]"]
      Plus_zero_and_identity_add[of constrained_evaluator "[1, 2]" "[3, 4]" "[]" hold_second "[0]"]
    by simp
qed

text \<open>C7. \<^verbatim>\<open>NumResiduals()\<close> is 1 for every evaluator, whatever problem it wraps.\<close>

theorem NumResiduals_is_one: "NumResiduals e = 1"
  by (simp add: NumResiduals_def)

text \<open>C8. \<^verbatim>\<open>CreateJacobian()\<close> returns the null pointer for every evaluator.\<close>

theorem CreateJacobian_is_null: "CreateJacobian e = None"
  by (simp add: CreateJacobian_def)

text \<open>
  C9. Claimed: for every call of \<^verbatim>\<open>Evaluate\<close> with a null \<^verbatim>\<open>jacobian\<close>, what
  \<^verbatim>\<open>residuals\<close> points to is the same before and after the call.

  This fails when \<^verbatim>\<open>residuals\<close> points to a cell that the call writes through another
  argument: with \<^verbatim>\<open>residuals\<close> and \<^verbatim>\<open>cost\<close> both at address 2, the cell holds 7 before
  the call and the cost of the point \<open>(0, 0)\<close>, which is 1, after it.
\<close>

theorem Evaluate_residuals_alias_counterexample:
  "cells seven_at_cost 2 = 7 \<and>
   cell_after (Evaluate Rosenbrock_evaluator seven_at_cost () 0 2 (Some 2) None None) 2 = Some 1"
  by (simp add: cell_after_def seven_at_cost_def ticking_world_def Evaluate_def
      WallTimeInSeconds_def GradientProblem_Evaluate_def GradientProblem_NumParameters_def
      Rosenbrock_evaluator_def GradientProblemEvaluator_new_def GradientProblem_new_def
      Rosenbrock_def load_def Let_def)

text \<open>
  C9, as amended. Let a call of \<^verbatim>\<open>Evaluate\<close> with a null \<^verbatim>\<open>jacobian\<close> return, with
  \<^verbatim>\<open>residuals\<close> pointing to a cell that is neither the \<^verbatim>\<open>cost\<close> cell nor one of the
  cells of the \<^verbatim>\<open>gradient\<close> array. Then the cell holds after the call what it held before,
  although \<^verbatim>\<open>NumResiduals()\<close> is 1; the call does the same whatever pointer is passed as
  \<^verbatim>\<open>residuals\<close>; and if the cell is not one of the parameters read through \<^verbatim>\<open>state\<close>
  either, then changing what it holds before the call changes nothing but what it holds after.
\<close>

theorem Evaluate_frame_residuals:
  assumes "Evaluate e w evaluate_options state cost (Some r) grad None = Inr (ok, e', w')"
    and "r \<noteq> cost"
    and "\<forall>g. grad = Some g \<longrightarrow> r < g \<or> g + nat (NumParameters e) \<le> r"
  shows "cells w' r = cells w r \<and> NumResiduals e = 1 \<and>
     Evaluate e w evaluate_options state cost residuals' grad None = Inr (ok, e', w') \<and>
     (r < state \<or> state + nat (NumParameters e) \<le> r \<longrightarrow>
        Evaluate e (w\<lparr>cells := (cells w)(r := v)\<rparr>) evaluate_options state cost (Some r) grad None =
          Inr (ok, e', w'\<lparr>cells := (cells w')(r := v)\<rparr>))"
proof (intro conjI impI)
  show "cells w' r = cells w r"
    using assms
    by (auto simp: Evaluate_def WallTimeInSeconds_def GradientProblem_Evaluate_def Let_def
        NumParameters_def store_def split: prod.splits option.splits)
  show "NumResiduals e = 1"
    by (simp add: NumResiduals_def)
  show "Evaluate e w evaluate_options state cost residuals' grad None = Inr (ok, e', w')"
    using assms(1) by (simp add: Evaluate_def)
  show "Evaluate e (w\<lparr>cells := (cells w)(r := v)\<rparr>) evaluate_options state cost (Some r) grad None =
          Inr (ok, e', w'\<lparr>cells := (cells w')(r := v)\<rparr>)"
    if "r < state \<or> state + nat (NumParameters e) \<le> r"
    using assms that
    by (auto simp: Evaluate_def WallTimeInSeconds_def GradientProblem_Evaluate_def Let_def
        NumParameters_def load_update_outside store_update_outside fun_upd_twist
        split: prod.splits option.splits)
qed

theorem Evaluate_frame_residuals_witness:
  "\<exists>ok e' w'.
     Evaluate Rosenbrock_evaluator ticking_world () 0 2 (Some 5) (Some 3) None = Inr (ok, e', w') \<and>
     (5::nat) \<noteq> 2 \<and> (3::nat) + nat (NumParameters Rosenbrock_evaluator) \<le> 5 \<and>
     (0::nat) + nat (NumParameters Rosenbrock_evaluator) \<le> 5 \<and>
     cells w' 5 = cells ticking_world 5 \<and>
     cells w' 2 = 1 \<and> cells w' 3 = - 2 \<and>
     Evaluate Rosenbrock_evaluator ticking_world () 0 2 None (Some 3) None = Inr (ok, e', w') \<and>
     Evaluate Rosenbrock_evaluator (ticking_world\<lparr>cells := (cells ticking_world)(5 := 7)\<rparr>)
         () 0 2 (Some 5) (Some 3) None =
       Inr (ok, e', w'\<lparr>cells := (cells w')(5 := 7)\<rparr>)"
proof -
  obtain ok e' w' where h:
    "Evaluate Rosenbrock_evaluator ticking_world () 0 2 (Some 5) (Some 3) None = Inr (ok, e', w')"
    using Evaluate_returns[of Rosenbrock_evaluator ticking_world "()" 0 2 "Some 5" "Some 3"]
    by auto
  have n: "nat (NumParameters Rosenbrock_evaluator) = 2"
    by (simp add: NumParameters_def GradientProblem_NumParameters_def Rosenbrock_evaluator_def
        GradientProblemEvaluator_new_def GradientProblem_new_def Rosenbrock_def)
  have g: "\<forall>g. Some (3::nat) = Some g \<longrightarrow> 5 < g \<or> g + nat (NumParameters Rosenbrock_evaluator) \<le> 5"
    using n by simp
  have c: "(5::nat) \<noteq> 2"
    by simp
  have written: "cells w' 2 = 1 \<and> cells w' 3 = - 2"
    using h
    by (auto simp: Evaluate_def WallTimeInSeconds_def GradientProblem_Evaluate_def Let_def
        GradientProblem_NumParameters_def Rosenbrock_evaluator_def GradientProblemEvaluator_new_def
        GradientProblem_new_def Rosenbrock_def ticking_world_def load_def store_def
        split: prod.splits)
  show ?thesis
    using h n written Evaluate_frame_residuals[OF h c g, of None 7]
    by auto
qed

text \<open>
  C10. A sequence of calls of member functions other than \<^verbatim>\<open>Evaluate\<close> (\<^verbatim>\<open>Plus\<close>,
  \<^verbatim>\<open>EvaluateGradientNorms\<close>, \<^verbatim>\<open>NextDirection\<close>, \<^verbatim>\<open>NumParameters\<close>,
  \<^verbatim>\<open>NumEffectiveParameters\<close>, \<^verbatim>\<open>NumResiduals\<close>, \<^verbatim>\<open>CreateJacobian\<close>,
  \<^verbatim>\<open>Statistics\<close>), with any arguments, runs to its end and leaves the execution summary,
  and with it the map that \<^verbatim>\<open>Statistics()\<close> returns, as it was. A call of \<^verbatim>\<open>Evaluate\<close> that
  returns leaves a different map.
\<close>

theorem Statistics_frame:
  "(list_all (\<lambda>c. \<not> is_Evaluate c) cs \<longrightarrow>
      (\<exists>rs e' w'. invoke_all base cs (e, w) = Inr (rs, e', w') \<and>
         gpe_execution_summary e' = gpe_execution_summary e \<and>
         Statistics e' = Statistics e)) \<and>
   (invoke base (Call_Evaluate evaluate_options state cost residuals grad jacobian) (e, w) =
      Inr (r, e1, w1) \<longrightarrow> Statistics e1 \<noteq> Statistics e)"
proof (intro conjI impI)
  assume "list_all (\<lambda>c. \<not> is_Evaluate c) cs"
  then show "\<exists>rs e' w'. invoke_all base cs (e, w) = Inr (rs, e', w') \<and>
         gpe_execution_summary e' = gpe_execution_summary e \<and> Statistics e' = Statistics e"
    using invoke_all_not_Evaluate[of cs base e w] by auto
next
  assume h: "invoke base (Call_Evaluate evaluate_options state cost residuals grad jacobian) (e, w) =
      Inr (r, e1, w1)"
  then have j: "jacobian = None"
    by (auto simp: Evaluate_def split: if_splits)
  with h obtain ok where
    "Evaluate e w evaluate_options state cost residuals grad None = Inr (ok, e1, w1)"
    by (auto split: sum.splits)
  from Evaluate_total_changes[OF this] show "Statistics e1 \<noteq> Statistics e"
    by (auto simp: Statistics_def)
qed

theorem Statistics_frame_witness:
  "list_all (\<lambda>c. \<not> is_Evaluate c) queries \<and>
   (\<exists>rs. invoke_all failing_base queries (Rosenbrock_evaluator, ticking_world) =
      Inr (rs, Rosenbrock_evaluator, ticking_world)) \<and>
   (\<exists>r e1 w1.
      invoke failing_base (Call_Evaluate () 0 2 None None None) (Rosenbrock_evaluator, ticking_world) =
        Inr (r, e1, w1) \<and>
      Statistics e1 \<noteq> Statistics Rosenbrock_evaluator)"
proof -
  have q: "list_all (\<lambda>c. \<not> is_Evaluate c) queries"
    by (simp add: queries_def)
  have a: "\<exists>rs. invoke_all failing_base queries (Rosenbrock_evaluator, ticking_world) =
      Inr (rs, Rosenbrock_evaluator, ticking_world)"
    using invoke_all_not_Evaluate[OF q] by simp
  obtain ok e1 w1 where
    "Evaluate Rosenbrock_evaluator ticking_world () 0 2 None None None = Inr (ok, e1, w1)"
    using Evaluate_returns[of Rosenbrock_evaluator ticking_world "()" 0 2 None None]
    by auto
  then have i: "invoke failing_base (Call_Evaluate () 0 2 None None None)
        (Rosenbrock_evaluator, ticking_world) = Inr (Evaluate_returned ok, e1, w1)"
    by simp
  show ?thesis
    using q a i
      Statistics_frame[of queries failing_base Rosenbrock_evaluator ticking_world "()" 0 2 None None
        None "Evaluate_returned ok" e1 w1]
    by blast
qed

end
